theory Spec2Isabelle
  imports Main
begin

section \<open>Data model of \<^verbatim>\<open>src/server/server.js\<close>\<close>

text \<open>
  The server keeps two process-wide maps, \<^verbatim>\<open>users\<close> (socket id to session entry) and
  \<^verbatim>\<open>roomUsers\<close> (room id to the array of members), the in-memory fallback array
  \<^verbatim>\<open>messagesStore\<close>, the flag \<^verbatim>\<open>mongoConnected\<close> and, when that flag is set, the
  \<^verbatim>\<open>Message\<close> collection of MongoDB. All identifiers and texts are strings; a timestamp
  is the number of milliseconds a JavaScript \<^verbatim>\<open>Date\<close> holds.

  Each handler is a function from the state to the new state and the list of events it
  emits. An emitted event is recorded with its target, a socket or a room name; which
  sockets the transport then delivers a room's event to (\<^verbatim>\<open>socket.join\<close>,
  \<^verbatim>\<open>socket.leave\<close>) is Socket.IO's bookkeeping and not part of the model.
\<close>

type_synonym socketId = string
type_synonym roomId = string

text \<open>A document of \<^verbatim>\<open>messageSchema\<close>, or an object pushed on \<^verbatim>\<open>messagesStore\<close>.\<close>

record message =
  msg_id :: string
  msg_roomId :: roomId
  msg_username :: string
  msg_userId :: string
  msg_text :: string
  msg_timestamp :: int

text \<open>The value stored by \<^verbatim>\<open>users.set(socket.id, { userId, username, roomId })\<close>.\<close>

record session =
  u_userId :: string
  u_username :: string
  u_roomId :: roomId

text \<open>The object pushed on a room's array: \<^verbatim>\<open>{ userId, username, socketId }\<close>.\<close>

record member =
  r_userId :: string
  r_username :: string
  r_socketId :: socketId

text \<open>
  A socket after the authentication middleware: its id and the identity the middleware
  copied from the token (\<^verbatim>\<open>socket.userId\<close>, \<^verbatim>\<open>socket.username\<close>).
\<close>

record socket =
  sock_id :: socketId
  sock_userId :: string
  sock_username :: string

record server =
  users :: "socketId \<rightharpoonup> session"
  roomUsers :: "roomId \<rightharpoonup> member list"
  messagesStore :: "message list"
  messageCollection :: "message list"
  mongoConnected :: bool

text \<open>The payloads a client sends with \<^verbatim>\<open>send_message\<close> and \<^verbatim>\<open>leave_room\<close>.\<close>

record send_data =
  sd_roomId :: roomId
  sd_text :: string
  sd_username :: string
  sd_userId :: string

record leave_data =
  ld_roomId :: roomId
  ld_userId :: string
  ld_username :: string

text \<open>
  What a handler reads from outside the program while it runs: the clock
  (\<^verbatim>\<open>new Date()\<close>), the random suffix of an in-memory message id, the \<^verbatim>\<open>_id\<close> Mongoose
  gives a new document, and whether \<^verbatim>\<open>newMessage.save()\<close> throws.
\<close>

record env =
  env_now :: int
  env_random :: string
  env_objectId :: string
  env_saveFails :: bool

text \<open>The events the server emits, and where it sends them.\<close>

datatype payload =
    LoadMessages "message list"
  | UserJoined string string "member list"
  | ReceiveMessage string string string int string
  | UserLeft string string "member list"

datatype emit =
    ToSocket socketId payload
  | ToRoom roomId payload

definition initial :: server where
  "initial = \<lparr>users = Map.empty, roomUsers = Map.empty, messagesStore = [],
     messageCollection = [], mongoConnected = False\<rparr>"

section \<open>Message history\<close>

text \<open>\<^verbatim>\<open>xs.slice(-n)\<close>: the last \<open>n\<close> elements, all of them when there are fewer.\<close>

definition slice_last :: "nat \<Rightarrow> 'a list \<Rightarrow> 'a list" where
  "slice_last n xs = drop (length xs - n) xs"

text \<open>
  The in-memory branch:
  \<^verbatim>\<open>messagesStore.filter(m => m.roomId === roomId).slice(-50).sort((a, b) => new Date(a.timestamp) - new Date(b.timestamp))\<close>.
  \<^verbatim>\<open>Array.prototype.sort\<close> is stable, as \<^const>\<open>sort_key\<close> is.
\<close>

definition history_memory :: "message list \<Rightarrow> roomId \<Rightarrow> message list" where
  "history_memory store rid =
     sort_key msg_timestamp (slice_last 50 (filter (\<lambda>m. msg_roomId m = rid) store))"

text \<open>
  The MongoDB branch: \<^verbatim>\<open>Message.find({ roomId }).sort({ timestamp: 1 }).limit(50)\<close>, the
  matching documents in ascending order of timestamp, cut after the first 50. The
  collection is the list of its documents in insertion order; MongoDB leaves the order of
  documents with equal timestamps open, and they are taken in insertion order here.
\<close>

definition history_mongo :: "message list \<Rightarrow> roomId \<Rightarrow> message list" where
  "history_mongo coll rid =
     take 50 (sort_key msg_timestamp (filter (\<lambda>m. msg_roomId m = rid) coll))"

text \<open>
  The history load of the \<^verbatim>\<open>join_room\<close> handler. \<open>findFails\<close> says that the query
  throws; the \<^verbatim>\<open>catch\<close> block then sends an empty history.
\<close>

definition load_messages :: "server \<Rightarrow> roomId \<Rightarrow> bool \<Rightarrow> message list" where
  "load_messages s rid findFails =
     (if mongoConnected s
      then (if findFails then [] else history_mongo (messageCollection s) rid)
      else history_memory (messagesStore s) rid)"

text \<open>
  The body of \<^verbatim>\<open>GET /api/messages/:roomId\<close>, behind \<^verbatim>\<open>authMiddleware\<close>: the same two
  branches, and \<^verbatim>\<open>res.json([])\<close> in the \<^verbatim>\<open>catch\<close> block.
\<close>

definition get_messages :: "server \<Rightarrow> roomId \<Rightarrow> bool \<Rightarrow> message list" where
  "get_messages s rid findFails =
     (if mongoConnected s
      then (if findFails then [] else history_mongo (messageCollection s) rid)
      else history_memory (messagesStore s) rid)"

text \<open>
  From the specification's words, for comparison with the two branches above: the \<open>n\<close>
  most recent messages of a room, that is the \<open>n\<close> with the latest timestamps, oldest first.
\<close>

definition spec_most_recent :: "nat \<Rightarrow> message list \<Rightarrow> roomId \<Rightarrow> message list" where
  "spec_most_recent n store rid =
     slice_last n (sort_key msg_timestamp (filter (\<lambda>m. msg_roomId m = rid) store))"

text \<open>A room's message with the given timestamp, and a server that runs on MongoDB.\<close>

definition msg_at :: "roomId \<Rightarrow> nat \<Rightarrow> message" where
  "msg_at rid t = \<lparr>msg_id = ''m'', msg_roomId = rid, msg_username = ''alice'',
     msg_userId = ''u1'', msg_text = ''hi'', msg_timestamp = int t\<rparr>"

definition mongo_with :: "message list \<Rightarrow> server" where
  "mongo_with ms = initial\<lparr>messageCollection := ms, mongoConnected := True\<rparr>"

definition memory_with :: "message list \<Rightarrow> server" where
  "memory_with ms = initial\<lparr>messagesStore := ms\<rparr>"

section \<open>Presence and the handlers of a connection\<close>

text \<open>\<^verbatim>\<open>roomUsers.get(roomId) || []\<close>: an array, also an empty one, is truthy.\<close>

definition members :: "(roomId \<rightharpoonup> member list) \<Rightarrow> roomId \<Rightarrow> member list" where
  "members ru rid = (case ru rid of None \<Rightarrow> [] | Some room \<Rightarrow> room)"

text \<open>
  \<^verbatim>\<open>Array.prototype.findIndex\<close>: the index of the first element that satisfies the
  predicate, \<open>-1\<close> when there is none. \<open>k\<close> is the index of the head of the list.
\<close>

fun findIndex_from :: "nat \<Rightarrow> ('a \<Rightarrow> bool) \<Rightarrow> 'a list \<Rightarrow> int" where
  "findIndex_from k P [] = - 1"
| "findIndex_from k P (x # xs) = (if P x then int k else findIndex_from (Suc k) P xs)"

definition findIndex :: "('a \<Rightarrow> bool) \<Rightarrow> 'a list \<Rightarrow> int" where
  "findIndex P xs = findIndex_from 0 P xs"

text \<open>\<^verbatim>\<open>xs.splice(start, count)\<close> for an index within the array: what is left in \<open>xs\<close>.\<close>

definition splice :: "nat \<Rightarrow> nat \<Rightarrow> 'a list \<Rightarrow> 'a list" where
  "splice start count xs = take start xs @ drop (start + count) xs"

text \<open>
  The block both \<^verbatim>\<open>leave_room\<close> and \<^verbatim>\<open>disconnect\<close> run on the room's array:
  \<^verbatim>\<open>const index = room.findIndex(u => u.socketId === socket.id); if (index > -1) room.splice(index, 1)\<close>.
\<close>

definition remove_socket :: "socketId \<Rightarrow> member list \<Rightarrow> member list" where
  "remove_socket sid room =
     (let index = findIndex (\<lambda>u. r_socketId u = sid) room
      in if index > - 1 then splice (nat index) 1 room else room)"

text \<open>
  The \<^verbatim>\<open>join_room\<close> handler up to its history load (lines 327 to 337). Of the payload it
  reads \<^verbatim>\<open>roomId\<close> only; the identity is the socket's. The entry is pushed without
  looking at what the array or any other array holds.
\<close>

definition join_room_enter :: "server \<Rightarrow> socket \<Rightarrow> roomId \<Rightarrow> server" where
  "join_room_enter s sock rid =
     (let userId = sock_userId sock;
          username = sock_username sock;
          users1 = (users s)(sock_id sock \<mapsto>
                     \<lparr>u_userId = userId, u_username = username, u_roomId = rid\<rparr>);
          rooms1 = (if roomUsers s rid = None then (roomUsers s)(rid \<mapsto> []) else roomUsers s);
          rooms2 = rooms1(rid \<mapsto> members rooms1 rid @
                     [\<lparr>r_userId = userId, r_username = username, r_socketId = sock_id sock\<rparr>])
      in s\<lparr>users := users1, roomUsers := rooms2\<rparr>)"

text \<open>
  What the handler emits once it has the history (lines 352 or 355, and 359 to 363):
  \<^verbatim>\<open>load_messages\<close> to the socket and \<^verbatim>\<open>user_joined\<close> to the room, with the room's array
  as \<^verbatim>\<open>roomUsers\<close> holds it at that moment.
\<close>

definition join_room_emits :: "server \<Rightarrow> socket \<Rightarrow> roomId \<Rightarrow> message list \<Rightarrow> emit list" where
  "join_room_emits s sock rid messages =
     [ToSocket (sock_id sock) (LoadMessages messages),
      ToRoom rid (UserJoined (sock_username sock) (sock_userId sock) (members (roomUsers s) rid))]"

text \<open>
  The step the server takes when a \<^verbatim>\<open>join_room\<close> event arrives. In the in-memory branch
  the handler has no \<^verbatim>\<open>await\<close> that yields and runs to its end. With MongoDB connected it
  stops at \<^verbatim>\<open>await Message.find(...)\<close> after the state change, having emitted nothing;
  other events may be handled before it resumes.
\<close>

definition join_room :: "server \<Rightarrow> socket \<Rightarrow> roomId \<Rightarrow> bool \<Rightarrow> server \<times> emit list" where
  "join_room s sock rid findFails =
     (let s1 = join_room_enter s sock rid
      in if mongoConnected s1 then (s1, [])
         else (s1, join_room_emits s1 sock rid (load_messages s1 rid findFails)))"

text \<open>
  The step in which a handler stopped at \<^verbatim>\<open>await Message.find(...)\<close> resumes. \<open>coll\<close> is
  the collection as MongoDB held it when it ran the query, \<open>findFails\<close> says that the
  query threw. The state is left as it is; \<^verbatim>\<open>user_joined\<close> lists the room as it is now.
\<close>

definition join_room_resume ::
  "server \<Rightarrow> socket \<Rightarrow> roomId \<Rightarrow> message list \<Rightarrow> bool \<Rightarrow> server \<times> emit list" where
  "join_room_resume s sock rid coll findFails =
     (s, join_room_emits s sock rid (if findFails then [] else history_mongo coll rid))"

text \<open>
  The message store's append inside \<^verbatim>\<open>send_message\<close>: \<^verbatim>\<open>await newMessage.save()\<close>, which
  may throw, or \<^verbatim>\<open>messagesStore.push(message)\<close>.
\<close>

datatype store_error = SaveFailed

definition append_message :: "server \<Rightarrow> env \<Rightarrow> send_data \<Rightarrow> store_error + (server \<times> message)" where
  "append_message s e data =
     (if mongoConnected s then
        (let newMessage = \<lparr>msg_id = env_objectId e, msg_roomId = sd_roomId data,
               msg_username = sd_username data, msg_userId = sd_userId data,
               msg_text = sd_text data, msg_timestamp = env_now e\<rparr>
         in if env_saveFails e then Inl SaveFailed
            else Inr (s\<lparr>messageCollection := messageCollection s @ [newMessage]\<rparr>, newMessage))
      else
        (let message = \<lparr>msg_id = ''msg_'' @ env_random e, msg_roomId = sd_roomId data,
               msg_username = sd_username data, msg_userId = sd_userId data,
               msg_text = sd_text data, msg_timestamp = env_now e\<rparr>
         in Inr (s\<lparr>messagesStore := messagesStore s @ [message]\<rparr>, message)))"

text \<open>
  The \<^verbatim>\<open>send_message\<close> handler: everything comes from the payload, the \<^verbatim>\<open>try\<close> block
  appends and then emits, the \<^verbatim>\<open>catch\<close> block only logs.
\<close>

definition send_message :: "server \<Rightarrow> socket \<Rightarrow> env \<Rightarrow> send_data \<Rightarrow> server \<times> emit list" where
  "send_message s sock e data =
     (case append_message s e data of
        Inl error \<Rightarrow> (s, [])
      | Inr (s1, message) \<Rightarrow>
          (s1, [ToRoom (sd_roomId data)
                  (ReceiveMessage (sd_userId data) (sd_username data) (sd_text data)
                     (msg_timestamp message) (msg_id message))]))"

text \<open>The \<^verbatim>\<open>leave_room\<close> handler: guarded by \<^verbatim>\<open>if (user)\<close>, the entry of \<^verbatim>\<open>users\<close>.\<close>

definition leave_room :: "server \<Rightarrow> socket \<Rightarrow> leave_data \<Rightarrow> server \<times> emit list" where
  "leave_room s sock data =
     (let roomId = ld_roomId data; userId = ld_userId data; username = ld_username data
      in case users s (sock_id sock) of
           None \<Rightarrow> (s, [])
         | Some user \<Rightarrow>
             (let rooms1 = (case roomUsers s roomId of
                              None \<Rightarrow> roomUsers s
                            | Some room \<Rightarrow>
                                (roomUsers s)(roomId \<mapsto> remove_socket (sock_id sock) room))
              in (s\<lparr>roomUsers := rooms1\<rparr>,
                  [ToRoom roomId (UserLeft username userId (members rooms1 roomId))])))"

text \<open>
  The \<^verbatim>\<open>disconnect\<close> handler: room and identity come from the entry of \<^verbatim>\<open>users\<close>, which
  is deleted at the end in every case.
\<close>

definition disconnect :: "server \<Rightarrow> socket \<Rightarrow> server \<times> emit list" where
  "disconnect s sock =
     (case users s (sock_id sock) of
        None \<Rightarrow> (s\<lparr>users := (users s)(sock_id sock := None)\<rparr>, [])
      | Some user \<Rightarrow>
          (let roomId = u_roomId user; userId = u_userId user; username = u_username user;
               rooms1 = (case roomUsers s roomId of
                           None \<Rightarrow> roomUsers s
                         | Some room \<Rightarrow>
                             (roomUsers s)(roomId \<mapsto> remove_socket (sock_id sock) room))
           in (s\<lparr>users := (users s)(sock_id sock := None), roomUsers := rooms1\<rparr>,
               [ToRoom roomId (UserLeft username userId (members rooms1 roomId))])))"

subsection \<open>Events of a connection\<close>

text \<open>
  The steps of a connection: the arrival of one of the four events, or the resumption of
  a \<^verbatim>\<open>join_room\<close> handler that waited for MongoDB.
\<close>

datatype event =
    JoinRoom roomId bool
  | SendMessage send_data env
  | LeaveRoom leave_data
  | Disconnect
  | HistoryLoaded roomId "message list" bool

fun handle :: "server \<Rightarrow> socket \<Rightarrow> event \<Rightarrow> server \<times> emit list" where
  "handle s sock (JoinRoom rid findFails) = join_room s sock rid findFails"
| "handle s sock (SendMessage data e) = send_message s sock e data"
| "handle s sock (LeaveRoom data) = leave_room s sock data"
| "handle s sock Disconnect = disconnect s sock"
| "handle s sock (HistoryLoaded rid coll findFails) = join_room_resume s sock rid coll findFails"

text \<open>Events arrive one at a time, each tagged with the socket whose handler runs.\<close>

fun exec :: "server \<Rightarrow> (socket \<times> event) list \<Rightarrow> server \<times> emit list" where
  "exec s [] = (s, [])"
| "exec s ((sock, ev) # evs) =
     (case handle s sock ev of
        (s1, out1) \<Rightarrow> (case exec s1 evs of (s2, out2) \<Rightarrow> (s2, out1 @ out2)))"

definition run :: "server \<Rightarrow> socket \<Rightarrow> event list \<Rightarrow> server \<times> emit list" where
  "run s sock evs = exec s (map (Pair sock) evs)"

subsection \<open>Authentication of a connection\<close>

text \<open>
  \<^verbatim>\<open>jwt.verify\<close> belongs to a library: it is a parameter that returns the decoded
  payload or throws on a bad signature or an expired token. \<^verbatim>\<open>verifyToken\<close> turns every
  throw into \<^verbatim>\<open>null\<close>.
\<close>

datatype jwt_error = JsonWebTokenError | TokenExpiredError

record claims =
  c_userId :: string
  c_username :: string

definition verifyToken :: "(string \<Rightarrow> jwt_error + claims) \<Rightarrow> string \<Rightarrow> claims option" where
  "verifyToken jwt_verify token =
     (case jwt_verify token of Inl error \<Rightarrow> None | Inr decoded \<Rightarrow> Some decoded)"

datatype auth_error = NoTokenProvided | InvalidOrExpiredToken

text \<open>
  The middleware of \<^verbatim>\<open>io.use\<close>. A token that is absent is \<open>None\<close>; the empty string is
  falsy as well. On success the socket carries the decoded identity.
\<close>

definition io_use ::
  "(string \<Rightarrow> jwt_error + claims) \<Rightarrow> socketId \<Rightarrow> string option \<Rightarrow> auth_error + socket" where
  "io_use jwt_verify sid token =
     (case token of
        None \<Rightarrow> Inl NoTokenProvided
      | Some t \<Rightarrow>
          if t = [] then Inl NoTokenProvided
          else (case verifyToken jwt_verify t of
                  None \<Rightarrow> Inl InvalidOrExpiredToken
                | Some decoded \<Rightarrow>
                    Inr \<lparr>sock_id = sid, sock_userId = c_userId decoded,
                         sock_username = c_username decoded\<rparr>))"

text \<open>
  A connection attempt and the events the client then sends. The handlers are registered
  inside the \<^verbatim>\<open>io.on('connection', ...)\<close> callback, which runs only when the middleware
  called \<^verbatim>\<open>next()\<close> without an error.
\<close>

definition connection ::
  "(string \<Rightarrow> jwt_error + claims) \<Rightarrow> server \<Rightarrow> socketId \<Rightarrow> string option \<Rightarrow> event list
     \<Rightarrow> (auth_error + socket) \<times> server \<times> emit list" where
  "connection jwt_verify s sid token evs =
     (case io_use jwt_verify sid token of
        Inl err \<Rightarrow> (Inl err, s, [])
      | Inr sock \<Rightarrow> (Inr sock, run s sock evs))"

subsection \<open>Properties of the presence state\<close>

definition socket_ids :: "server \<Rightarrow> roomId \<Rightarrow> socketId list" where
  "socket_ids s rid = map r_socketId (members (roomUsers s) rid)"

text \<open>No room's array holds a socket id twice.\<close>

definition no_duplicates :: "server \<Rightarrow> bool" where
  "no_duplicates s = (\<forall>rid. distinct (socket_ids s rid))"

text \<open>The socket is listed in no room other than the given one.\<close>

definition listed_in_no_other :: "server \<Rightarrow> socketId \<Rightarrow> roomId \<Rightarrow> bool" where
  "listed_in_no_other s sid rid = (\<forall>r. sid \<in> set (socket_ids s r) \<longrightarrow> r = rid)"

text \<open>Every socket id is listed in at most one room.\<close>

definition single_room :: "server \<Rightarrow> bool" where
  "single_room s =
     (\<forall>sid r1 r2. sid \<in> set (socket_ids s r1) \<and> sid \<in> set (socket_ids s r2) \<longrightarrow> r1 = r2)"

text \<open>
  A sequence of events of one connection in which every \<^verbatim>\<open>join_room\<close> for a room arrives
  while the socket is not listed in that room.
\<close>

fun joins_when_absent :: "server \<Rightarrow> socket \<Rightarrow> event list \<Rightarrow> bool" where
  "joins_when_absent s sock [] = True"
| "joins_when_absent s sock (ev # evs) =
     ((case ev of JoinRoom rid findFails \<Rightarrow> sock_id sock \<notin> set (socket_ids s rid) | _ \<Rightarrow> True)
      \<and> joins_when_absent (fst (handle s sock ev)) sock evs)"

text \<open>
  A sequence of events of any connections in which every \<^verbatim>\<open>join_room\<close> for a room arrives
  while its socket is listed in no other room: the client has left the room it was in, or
  joins again the room it is in.
\<close>

fun joins_in_no_other_room :: "server \<Rightarrow> (socket \<times> event) list \<Rightarrow> bool" where
  "joins_in_no_other_room s [] = True"
| "joins_in_no_other_room s ((sock, ev) # evs) =
     ((case ev of JoinRoom rid findFails \<Rightarrow> listed_in_no_other s (sock_id sock) rid | _ \<Rightarrow> True)
      \<and> joins_in_no_other_room (fst (handle s sock ev)) evs)"

subsection \<open>Sample connections\<close>

definition alice :: socket where
  "alice = \<lparr>sock_id = ''s1'', sock_userId = ''u1'', sock_username = ''alice''\<rparr>"

definition sample_env :: env where
  "sample_env = \<lparr>env_now = 1000, env_random = ''abc'', env_objectId = ''oid1'',
     env_saveFails = False\<rparr>"

definition failing_env :: env where
  "failing_env = sample_env\<lparr>env_saveFails := True\<rparr>"

definition hi :: "roomId \<Rightarrow> send_data" where
  "hi rid = \<lparr>sd_roomId = rid, sd_text = ''hi'', sd_username = ''alice'', sd_userId = ''u1''\<rparr>"

definition leaving :: "roomId \<Rightarrow> string \<Rightarrow> string \<Rightarrow> leave_data" where
  "leaving rid uid name = \<lparr>ld_roomId = rid, ld_userId = uid, ld_username = name\<rparr>"

text \<open>The message store in use: the collection when MongoDB is connected, else the array.\<close>

definition stored :: "server \<Rightarrow> message list" where
  "stored s = (if mongoConnected s then messageCollection s else messagesStore s)"

text \<open>The state after \<open>alice\<close> has joined room \<open>A\<close> from the initial state.\<close>

definition in_room_A :: server where
  "in_room_A = fst (join_room initial alice ''A'' False)"

text \<open>
  A verifier for the samples: it accepts the token \<open>good\<close>, finds \<open>old\<close> expired and
  rejects the signature of every other token.
\<close>

definition sample_verify :: "string \<Rightarrow> jwt_error + claims" where
  "sample_verify t =
     (if t = ''good'' then Inr \<lparr>c_userId = ''u1'', c_username = ''alice''\<rparr>
      else if t = ''old'' then Inl TokenExpiredError
      else Inl JsonWebTokenError)"

definition bob :: socket where
  "bob = \<lparr>sock_id = ''s2'', sock_userId = ''u2'', sock_username = ''bob''\<rparr>"

text \<open>
  The state after \<open>alice\<close> has joined \<open>A\<close>, \<open>bob\<close> has joined \<open>A\<close> and \<open>alice\<close> has joined
  \<open>B\<close> without leaving \<open>A\<close>.
\<close>

definition in_rooms_A_B :: server where
  "in_rooms_A_B = fst (exec initial
     [(alice, JoinRoom ''A'' False), (bob, JoinRoom ''A'' False), (alice, JoinRoom ''B'' False)])"

definition mallory :: socket where
  "mallory = alice\<lparr>sock_userId := ''u9'', sock_username := ''mallory''\<rparr>"

section \<open>History: the two branches\<close>

lemma sorted_filter_timestamp:
  "sorted (map msg_timestamp xs) \<Longrightarrow> sorted (map msg_timestamp (filter P xs))"
  by (induction xs) auto

lemma sorted_drop_timestamp:
  "sorted (map msg_timestamp xs) \<Longrightarrow> sorted (map msg_timestamp (drop k xs))"
  by (simp add: sorted_wrt_drop flip: drop_map)

lemma history_memory_recent:
  assumes "sorted (map msg_timestamp store)"
  shows "history_memory store rid = spec_most_recent 50 store rid"
proof -
  let ?ms = "filter (\<lambda>m. msg_roomId m = rid) store"
  have s: "sorted (map msg_timestamp ?ms)"
    using assms by (rule sorted_filter_timestamp)
  then have "sorted (map msg_timestamp (slice_last 50 ?ms))"
    unfolding slice_last_def by (rule sorted_drop_timestamp)
  then have "history_memory store rid = slice_last 50 ?ms"
    by (simp add: history_memory_def sort_key_id_if_sorted)
  moreover have "spec_most_recent 50 store rid = slice_last 50 ?ms"
    using s by (simp add: spec_most_recent_def sort_key_id_if_sorted)
  ultimately show ?thesis by simp
qed

lemma history_mongo_oldest:
  assumes "sorted (map msg_timestamp coll)"
  shows "history_mongo coll rid = take 50 (filter (\<lambda>m. msg_roomId m = rid) coll)"
proof -
  have "sorted (map msg_timestamp (filter (\<lambda>m. msg_roomId m = rid) coll))"
    using assms by (rule sorted_filter_timestamp)
  then show ?thesis
    by (simp add: history_mongo_def sort_key_id_if_sorted)
qed

lemma timestamps_msg_at: "map msg_timestamp (map (msg_at rid) xs) = map int xs"
  by (induction xs) (simp_all add: msg_at_def)

lemma sorted_msg_at: "sorted (map msg_timestamp (map (msg_at rid) [a..<b]))"
proof -
  have "sorted (map int [a..<b])"
    by (rule sorted_map [THEN iffD2]) (simp add: sorted_wrt_iff_nth_less)
  then show ?thesis by (simp only: timestamps_msg_at)
qed

lemma join_room_sends_history:
  "\<not> mongoConnected s \<Longrightarrow>
     hd (snd (join_room s sock rid ff)) = ToSocket (sock_id sock) (LoadMessages (load_messages s rid ff))"
  by (simp add: join_room_def join_room_enter_def join_room_emits_def load_messages_def Let_def)

lemma join_room_resume_sends_history:
  "mongoConnected s \<Longrightarrow>
     hd (snd (join_room_resume s sock rid (messageCollection s) ff))
       = ToSocket (sock_id sock) (LoadMessages (load_messages s rid ff))"
  by (simp add: join_room_resume_def join_room_emits_def load_messages_def)

text \<open>
  C1. With MongoDB connected and 60 messages of room \<open>1\<close> stored with timestamps 1 to 60,
  the history sent on join, and the HTTP read, are the messages with timestamps 1 to 50:
  the 50 oldest, where the 50 most recent are those with timestamps 11 to 60, which is
  what the in-memory branch returns for the same messages.
\<close>

theorem C1_mongo_history_is_oldest:
  "map msg_timestamp (load_messages (mongo_with (map (msg_at ''1'') [1..<61])) ''1'' False)
     = map int [1..<51]
   \<and> get_messages (mongo_with (map (msg_at ''1'') [1..<61])) ''1'' False
     = load_messages (mongo_with (map (msg_at ''1'') [1..<61])) ''1'' False
   \<and> map msg_timestamp (spec_most_recent 50 (map (msg_at ''1'') [1..<61]) ''1'')
     = map int [11..<61]
   \<and> map msg_timestamp (load_messages (memory_with (map (msg_at ''1'') [1..<61])) ''1'' False)
     = map int [11..<61]"
proof -
  let ?coll = "map (msg_at ''1'') [1..<61]"
  have f: "filter (\<lambda>m. msg_roomId m = ''1'') ?coll = ?coll"
    by (simp add: msg_at_def)
  note ts = timestamps_msg_at
  have "history_mongo ?coll ''1'' = take 50 ?coll"
    using history_mongo_oldest [OF sorted_msg_at, of "''1''" 1 61 "''1''"] f by simp
  also have "\<dots> = map (msg_at ''1'') [1..<51]"
    by (simp add: take_map take_upt)
  finally have "map msg_timestamp (history_mongo ?coll ''1'') = map int [1..<51]"
    by (simp only: ts)
  then have a: "map msg_timestamp (load_messages (mongo_with ?coll) ''1'' False) = map int [1..<51]"
    by (simp add: load_messages_def mongo_with_def initial_def)
  have b: "get_messages (mongo_with ?coll) ''1'' False = load_messages (mongo_with ?coll) ''1'' False"
    by (simp add: get_messages_def load_messages_def)
  have "spec_most_recent 50 ?coll ''1'' = slice_last 50 ?coll"
    using sorted_msg_at [of "''1''" 1 61] f
    by (simp add: spec_most_recent_def sort_key_id_if_sorted)
  also have "\<dots> = map (msg_at ''1'') [11..<61]"
    by (simp add: slice_last_def drop_map drop_upt)
  finally have r: "spec_most_recent 50 ?coll ''1'' = map (msg_at ''1'') [11..<61]" .
  then have c: "map msg_timestamp (spec_most_recent 50 ?coll ''1'') = map int [11..<61]"
    by (simp only: ts)
  have "history_memory ?coll ''1'' = spec_most_recent 50 ?coll ''1''"
    by (rule history_memory_recent [OF sorted_msg_at])
  with r have "map msg_timestamp (history_memory ?coll ''1'') = map int [11..<61]"
    by (simp only: ts)
  then have d: "map msg_timestamp (load_messages (memory_with ?coll) ''1'' False) = map int [11..<61]"
    by (simp add: load_messages_def memory_with_def initial_def)
  from a b c d show ?thesis by blast
qed

section \<open>Removing a socket from a room\<close>

lemma findIndex_from_shift:
  "findIndex_from (Suc k) P xs =
     (if findIndex_from k P xs = - 1 then - 1 else findIndex_from k P xs + 1)"
  by (induction xs arbitrary: k) auto

lemma findIndex_from_nonneg: "findIndex_from k P xs = - 1 \<or> int k \<le> findIndex_from k P xs"
  by (induction xs arbitrary: k) (auto, force)

lemma remove_socket_Nil: "remove_socket sid [] = []"
  by (simp add: remove_socket_def findIndex_def)

lemma remove_socket_Cons:
  "remove_socket sid (u # us) =
     (if r_socketId u = sid then us else u # remove_socket sid us)"
proof (cases "r_socketId u = sid")
  case True
  then show ?thesis by (simp add: remove_socket_def findIndex_def splice_def)
next
  case False
  show ?thesis
  proof (cases "findIndex_from 0 (\<lambda>u. r_socketId u = sid) us = - 1")
    case True
    with False show ?thesis
      by (simp add: remove_socket_def findIndex_def findIndex_from_shift [of 0])
  next
    case nz: False
    with findIndex_from_nonneg [of 0 "\<lambda>u. r_socketId u = sid" us]
    have ge: "0 \<le> findIndex_from 0 (\<lambda>u. r_socketId u = sid) us" by simp
    with False nz show ?thesis
      by (simp add: remove_socket_def findIndex_def findIndex_from_shift [of 0] splice_def
          nat_add_distrib Let_def)
  qed
qed

lemma remove_socket_absent:
  "sid \<notin> set (map r_socketId room) \<Longrightarrow> remove_socket sid room = room"
  by (induction room) (auto simp: remove_socket_Nil remove_socket_Cons)

lemma set_remove_socket:
  "set (map r_socketId (remove_socket sid room)) \<subseteq> set (map r_socketId room)"
  by (induction room) (auto simp: remove_socket_Nil remove_socket_Cons)

lemma distinct_remove_socket:
  "distinct (map r_socketId room) \<Longrightarrow> distinct (map r_socketId (remove_socket sid room))"
proof (induction room)
  case Nil
  then show ?case by (simp add: remove_socket_Nil)
next
  case (Cons u us)
  then show ?case
    using set_remove_socket [of sid us] by (auto simp: remove_socket_Cons)
qed

subsection \<open>The state after a join\<close>

lemma fst_join_room: "fst (join_room s sock rid ff) = join_room_enter s sock rid"
  by (simp add: join_room_def Let_def)

lemma roomUsers_join_room_enter:
  "roomUsers (join_room_enter s sock rid) r =
     (if r = rid
      then Some (members (roomUsers s) rid @
             [\<lparr>r_userId = sock_userId sock, r_username = sock_username sock,
               r_socketId = sock_id sock\<rparr>])
      else roomUsers s r)"
  by (simp add: join_room_enter_def members_def Let_def)

lemma members_join_room:
  "members (roomUsers (fst (join_room s sock rid ff))) r =
     (if r = rid
      then members (roomUsers s) rid @
             [\<lparr>r_userId = sock_userId sock, r_username = sock_username sock,
               r_socketId = sock_id sock\<rparr>]
      else members (roomUsers s) r)"
  by (simp add: fst_join_room roomUsers_join_room_enter members_def)

subsection \<open>The socket ids of a room after each handler\<close>

lemma socket_ids_join:
  "socket_ids (fst (join_room s sock rid ff)) r =
     (if r = rid then socket_ids s rid @ [sock_id sock] else socket_ids s r)"
  by (simp add: socket_ids_def members_join_room)

lemma socket_ids_resume:
  "socket_ids (fst (join_room_resume s sock rid coll ff)) r = socket_ids s r"
  by (simp add: join_room_resume_def)

lemma socket_ids_send: "socket_ids (fst (send_message s sock e d)) r = socket_ids s r"
  by (simp add: send_message_def append_message_def socket_ids_def Let_def)

lemma socket_ids_leave:
  "socket_ids (fst (leave_room s sock d)) r =
     (if r = ld_roomId d \<and> users s (sock_id sock) \<noteq> None
      then map r_socketId (remove_socket (sock_id sock) (members (roomUsers s) r))
      else socket_ids s r)"
  by (auto simp: leave_room_def socket_ids_def members_def Let_def remove_socket_Nil
      split: option.splits)

lemma socket_ids_disconnect:
  "socket_ids (fst (disconnect s sock)) r =
     (case users s (sock_id sock) of
        None \<Rightarrow> socket_ids s r
      | Some user \<Rightarrow>
          if r = u_roomId user
          then map r_socketId (remove_socket (sock_id sock) (members (roomUsers s) r))
          else socket_ids s r)"
  by (auto simp: disconnect_def socket_ids_def members_def Let_def remove_socket_Nil
      split: option.splits)

lemma set_remove_socket_ids:
  "set (map r_socketId (remove_socket sid (members (roomUsers s) r))) \<subseteq> set (socket_ids s r)"
  unfolding socket_ids_def by (rule set_remove_socket)

lemma distinct_remove_socket_ids:
  "distinct (socket_ids s r) \<Longrightarrow>
     distinct (map r_socketId (remove_socket sid (members (roomUsers s) r)))"
  unfolding socket_ids_def by (rule distinct_remove_socket)

lemma set_socket_ids_leave:
  "set (socket_ids (fst (leave_room s sock d)) r) \<subseteq> set (socket_ids s r)"
  using set_remove_socket_ids [of "sock_id sock" s r]
  by (auto simp: socket_ids_leave)

lemma set_socket_ids_disconnect:
  "set (socket_ids (fst (disconnect s sock)) r) \<subseteq> set (socket_ids s r)"
  using set_remove_socket_ids [of "sock_id sock" s r]
  by (auto simp: socket_ids_disconnect split: option.splits)

lemma distinct_socket_ids_leave:
  "distinct (socket_ids s r) \<Longrightarrow> distinct (socket_ids (fst (leave_room s sock d)) r)"
  using distinct_remove_socket_ids [of s r "sock_id sock"]
  by (auto simp: socket_ids_leave)

lemma distinct_socket_ids_disconnect:
  "distinct (socket_ids s r) \<Longrightarrow> distinct (socket_ids (fst (disconnect s sock)) r)"
  using distinct_remove_socket_ids [of s r "sock_id sock"]
  by (auto simp: socket_ids_disconnect split: option.splits)

lemma no_duplicates_handle:
  assumes "no_duplicates s"
    and "case ev of JoinRoom rid ff \<Rightarrow> sock_id sock \<notin> set (socket_ids s rid) | _ \<Rightarrow> True"
  shows "no_duplicates (fst (handle s sock ev))"
proof (cases ev)
  case (JoinRoom rid ff)
  with assms show ?thesis
    by (simp add: no_duplicates_def socket_ids_join)
next
  case (SendMessage d e)
  with assms show ?thesis
    by (simp add: no_duplicates_def socket_ids_send)
next
  case (LeaveRoom d)
  with assms show ?thesis
    by (simp add: no_duplicates_def distinct_socket_ids_leave)
next
  case Disconnect
  with assms show ?thesis
    by (simp add: no_duplicates_def distinct_socket_ids_disconnect)
next
  case (HistoryLoaded rid coll ff)
  with assms show ?thesis
    by (simp add: no_duplicates_def socket_ids_resume)
qed

lemma run_Nil: "run s sock [] = (s, [])"
  by (simp add: run_def)

lemma fst_run_Cons: "fst (run s sock (ev # evs)) = fst (run (fst (handle s sock ev)) sock evs)"
  by (simp add: run_def split: prod.splits)

lemma fst_exec_Cons: "fst (exec s ((sock, ev) # evs)) = fst (exec (fst (handle s sock ev)) evs)"
  by (simp split: prod.splits)

lemma no_duplicates_initial: "no_duplicates initial"
  by (simp add: no_duplicates_def socket_ids_def members_def initial_def)

section \<open>Membership lists without duplicates\<close>

text \<open>
  C2 (as amended). From a state in which no room lists a socket id twice, every sequence of
  \<^verbatim>\<open>join_room\<close>, \<^verbatim>\<open>send_message\<close>, \<^verbatim>\<open>leave_room\<close> and \<^verbatim>\<open>disconnect\<close> events of one
  connection (and of resumptions of its waiting \<^verbatim>\<open>join_room\<close> handlers) in which each
  \<^verbatim>\<open>join_room\<close> for a room arrives while the connection is not listed in that room keeps
  every room free of duplicates, after each of its prefixes.
\<close>

theorem C2_no_duplicates_when_joins_absent:
  assumes "no_duplicates s" and "joins_when_absent s sock evs"
  shows "no_duplicates (fst (run s sock (take n evs)))"
  using assms
proof (induction evs arbitrary: s n)
  case Nil
  then show ?case by (simp add: run_Nil)
next
  case (Cons ev evs)
  show ?case
  proof (cases n)
    case 0
    with Cons.prems show ?thesis by (simp add: run_Nil)
  next
    case (Suc k)
    from Cons.prems have "no_duplicates (fst (handle s sock ev))"
      by (intro no_duplicates_handle) simp_all
    moreover from Cons.prems have "joins_when_absent (fst (handle s sock ev)) sock evs"
      by simp
    ultimately have "no_duplicates (fst (run (fst (handle s sock ev)) sock (take k evs)))"
      by (rule Cons.IH)
    with Suc show ?thesis by (simp add: fst_run_Cons)
  qed
qed

text \<open>The theorem at a join, a leave, a second join and a disconnect from the initial state.\<close>

theorem C2_witness:
  "no_duplicates initial
   \<and> joins_when_absent initial alice
       [JoinRoom ''A'' False, LeaveRoom (leaving ''A'' ''u1'' ''alice''), JoinRoom ''A'' False, Disconnect]
   \<and> no_duplicates (fst (run initial alice (take 4
       [JoinRoom ''A'' False, LeaveRoom (leaving ''A'' ''u1'' ''alice''), JoinRoom ''A'' False, Disconnect])))"
proof -
  let ?evs = "[JoinRoom ''A'' False, LeaveRoom (leaving ''A'' ''u1'' ''alice''), JoinRoom ''A'' False, Disconnect]"
  have h: "joins_when_absent initial alice ?evs"
    by (simp add: socket_ids_join socket_ids_leave join_room_def join_room_enter_def join_room_emits_def leave_room_def Let_def
        members_def leaving_def alice_def initial_def socket_ids_def remove_socket_Cons remove_socket_Nil)
  from C2_no_duplicates_when_joins_absent [OF no_duplicates_initial h, of 4] no_duplicates_initial h
  show ?thesis by blast
qed

text \<open>
  C2 as stated fails: \<^verbatim>\<open>join_room\<close> pushes without a look at the array, so two joins of the
  same room list the socket twice.
\<close>

theorem C2_counterexample:
  "socket_ids (fst (run initial alice [JoinRoom ''A'' False, JoinRoom ''A'' False])) ''A''
     = [''s1'', ''s1'']
   \<and> \<not> no_duplicates (fst (run initial alice [JoinRoom ''A'' False, JoinRoom ''A'' False]))"
proof -
  have a: "socket_ids (fst (run initial alice [JoinRoom ''A'' False, JoinRoom ''A'' False])) ''A''
     = [''s1'', ''s1'']"
    by (simp add: fst_run_Cons run_Nil socket_ids_join)
       (simp add: socket_ids_def members_def initial_def alice_def)
  then have "\<not> distinct (socket_ids (fst (run initial alice [JoinRoom ''A'' False, JoinRoom ''A'' False])) ''A'')"
    by simp
  then have "\<not> no_duplicates (fst (run initial alice [JoinRoom ''A'' False, JoinRoom ''A'' False]))"
    unfolding no_duplicates_def by blast
  with a show ?thesis by blast
qed

section \<open>One room per connection\<close>

lemma single_room_subset:
  assumes "single_room s" and "\<And>r. set (socket_ids s1 r) \<subseteq> set (socket_ids s r)"
  shows "single_room s1"
  unfolding single_room_def
proof (intro allI impI)
  fix sid r1 r2
  assume "sid \<in> set (socket_ids s1 r1) \<and> sid \<in> set (socket_ids s1 r2)"
  with assms(2) have "sid \<in> set (socket_ids s r1) \<and> sid \<in> set (socket_ids s r2)"
    by blast
  with assms(1) show "r1 = r2"
    unfolding single_room_def by blast
qed

lemma single_room_join:
  assumes "single_room s" and "listed_in_no_other s (sock_id sock) rid"
  shows "single_room (fst (join_room s sock rid ff))"
  unfolding single_room_def
proof (intro allI impI)
  fix sid r1 r2
  assume in12: "sid \<in> set (socket_ids (fst (join_room s sock rid ff)) r1)
      \<and> sid \<in> set (socket_ids (fst (join_room s sock rid ff)) r2)"
  have old: "r = rid \<or> sid \<in> set (socket_ids s r)"
    if "sid \<in> set (socket_ids (fst (join_room s sock rid ff)) r)" for r
    using that by (auto simp: socket_ids_join split: if_splits)
  have only: "r = rid" if "sid = sock_id sock" and "sid \<in> set (socket_ids s r)" for r
    using that assms(2) unfolding listed_in_no_other_def by blast
  have here: "sid = sock_id sock \<or> sid \<in> set (socket_ids s rid)"
    if "sid \<in> set (socket_ids (fst (join_room s sock rid ff)) rid)"
    using that by (auto simp: socket_ids_join)
  show "r1 = r2"
  proof (cases "sid = sock_id sock")
    case True
    with in12 old only show ?thesis by blast
  next
    case False
    have "sid \<in> set (socket_ids s r)"
      if "sid \<in> set (socket_ids (fst (join_room s sock rid ff)) r)" for r
      using that False by (auto simp: socket_ids_join split: if_splits)
    with in12 have "sid \<in> set (socket_ids s r1) \<and> sid \<in> set (socket_ids s r2)"
      by blast
    with assms(1) show ?thesis
      unfolding single_room_def by blast
  qed
qed

lemma join_while_elsewhere_breaks_single_room:
  assumes "sock_id sock \<in> set (socket_ids s a)" and "a \<noteq> b"
  shows "\<not> single_room (fst (join_room s sock b ff))"
proof
  assume "single_room (fst (join_room s sock b ff))"
  moreover from assms have "sock_id sock \<in> set (socket_ids (fst (join_room s sock b ff)) a)"
    by (simp add: socket_ids_join)
  moreover have "sock_id sock \<in> set (socket_ids (fst (join_room s sock b ff)) b)"
    by (simp add: socket_ids_join)
  ultimately have "a = b"
    unfolding single_room_def by blast
  with assms(2) show False by simp
qed

lemma single_room_handle:
  assumes "single_room s"
    and "case ev of JoinRoom rid ff \<Rightarrow> listed_in_no_other s (sock_id sock) rid | _ \<Rightarrow> True"
  shows "single_room (fst (handle s sock ev))"
proof (cases ev)
  case (JoinRoom rid ff)
  with assms show ?thesis by (simp add: single_room_join)
next
  case (SendMessage d e)
  with assms show ?thesis
    by (simp add: single_room_def socket_ids_send)
next
  case (LeaveRoom d)
  with assms(1) show ?thesis
    by (simp add: single_room_subset [OF _ set_socket_ids_leave])
next
  case Disconnect
  with assms(1) show ?thesis
    by (simp add: single_room_subset [OF _ set_socket_ids_disconnect])
next
  case (HistoryLoaded rid coll ff)
  with assms(1) show ?thesis
    by (simp add: join_room_resume_def)
qed

lemma single_room_exec:
  assumes "single_room s" and "joins_in_no_other_room s tr"
  shows "single_room (fst (exec s (take n tr)))"
  using assms
proof (induction tr arbitrary: s n)
  case Nil
  then show ?case by simp
next
  case (Cons x tr)
  obtain sock ev where x: "x = (sock, ev)" by (cases x)
  show ?case
  proof (cases n)
    case 0
    with Cons.prems show ?thesis by simp
  next
    case (Suc k)
    from Cons.prems x have "single_room (fst (handle s sock ev))"
      by (intro single_room_handle) simp_all
    moreover from Cons.prems x have "joins_in_no_other_room (fst (handle s sock ev)) tr"
      by simp
    ultimately have "single_room (fst (exec (fst (handle s sock ev)) (take k tr)))"
      by (rule Cons.IH)
    with Suc x show ?thesis by (simp add: fst_exec_Cons del: exec.simps)
  qed
qed

lemma single_room_initial: "single_room initial"
  by (simp add: single_room_def socket_ids_def members_def initial_def)

text \<open>
  C3 (as amended). From a state in which every socket id is listed in at most one room,
  every sequence of events in which each \<^verbatim>\<open>join_room\<close> for a room arrives while its
  connection is listed in no other room keeps every socket id in at most one room, after
  each of its prefixes. \<^verbatim>\<open>join_room\<close> for room \<open>b\<close> itself lists the connection in \<open>b\<close> and
  leaves the membership list of every other room \<open>a\<close> as it was: a connection listed in
  \<open>a\<close> is still listed there.
\<close>

theorem C3_single_room_when_joins_in_no_other_room:
  "(single_room s \<and> joins_in_no_other_room s tr \<longrightarrow> single_room (fst (exec s (take n tr))))
   \<and> (a \<noteq> b \<longrightarrow>
        members (roomUsers (fst (join_room t sock b ff))) a = members (roomUsers t) a)
   \<and> (a \<noteq> b \<longrightarrow> socket_ids (fst (join_room t sock b ff)) a = socket_ids t a)
   \<and> (a \<noteq> b \<and> sock_id sock \<in> set (socket_ids t a) \<longrightarrow>
        sock_id sock \<in> set (socket_ids (fst (join_room t sock b ff)) a))
   \<and> sock_id sock \<in> set (socket_ids (fst (join_room t sock b ff)) b)"
  by (simp add: single_room_exec socket_ids_join members_join_room)

text \<open>
  The theorem at a trace from the initial state in which \<open>alice\<close> joins \<open>A\<close>, \<open>bob\<close> joins
  \<open>A\<close>, \<open>alice\<close> joins \<open>A\<close> once more, leaves it twice and joins \<open>B\<close>; and at a join of \<open>B\<close>
  by the connection that is in \<open>A\<close>, whose entry stays in the list of \<open>A\<close>.
\<close>

theorem C3_witness:
  "single_room initial
   \<and> joins_in_no_other_room initial
       [(alice, JoinRoom ''A'' False), (bob, JoinRoom ''A'' False),
        (alice, JoinRoom ''A'' False), (alice, LeaveRoom (leaving ''A'' ''u1'' ''alice'')),
        (alice, LeaveRoom (leaving ''A'' ''u1'' ''alice'')), (alice, JoinRoom ''B'' False)]
   \<and> single_room (fst (exec initial (take 6
       [(alice, JoinRoom ''A'' False), (bob, JoinRoom ''A'' False),
        (alice, JoinRoom ''A'' False), (alice, LeaveRoom (leaving ''A'' ''u1'' ''alice'')),
        (alice, LeaveRoom (leaving ''A'' ''u1'' ''alice'')), (alice, JoinRoom ''B'' False)])))
   \<and> ''A'' \<noteq> ''B''
   \<and> sock_id alice \<in> set (socket_ids in_room_A ''A'')
   \<and> members (roomUsers (fst (join_room in_room_A alice ''B'' False))) ''A''
       = members (roomUsers in_room_A) ''A''
   \<and> members (roomUsers in_room_A) ''A''
       = [\<lparr>r_userId = ''u1'', r_username = ''alice'', r_socketId = ''s1''\<rparr>]
   \<and> sock_id alice \<in> set (socket_ids (fst (join_room in_room_A alice ''B'' False)) ''A'')
   \<and> sock_id alice \<in> set (socket_ids (fst (join_room in_room_A alice ''B'' False)) ''B'')"
proof -
  let ?tr = "[(alice, JoinRoom ''A'' False), (bob, JoinRoom ''A'' False),
        (alice, JoinRoom ''A'' False), (alice, LeaveRoom (leaving ''A'' ''u1'' ''alice'')),
        (alice, LeaveRoom (leaving ''A'' ''u1'' ''alice'')), (alice, JoinRoom ''B'' False)]"
  have h: "joins_in_no_other_room initial ?tr"
    by (simp add: listed_in_no_other_def join_room_def join_room_enter_def leave_room_def
        Let_def members_def leaving_def alice_def bob_def initial_def socket_ids_def
        remove_socket_Cons remove_socket_Nil)
  have ne: "''A'' \<noteq> ''B''" by simp
  have m: "members (roomUsers in_room_A) ''A''
       = [\<lparr>r_userId = ''u1'', r_username = ''alice'', r_socketId = ''s1''\<rparr>]"
    by (simp add: in_room_A_def members_join_room alice_def) (simp add: members_def initial_def)
  then have i: "sock_id alice \<in> set (socket_ids in_room_A ''A'')"
    by (simp add: socket_ids_def alice_def)
  note inst = C3_single_room_when_joins_in_no_other_room [where s = initial and tr = ?tr
      and n = 6 and a = "''A''" and b = "''B''" and t = in_room_A and sock = alice and ff = False]
  from inst single_room_initial h ne m i show ?thesis by blast
qed

text \<open>
  C3 as stated fails: after \<^verbatim>\<open>join_room\<close> for \<open>A\<close> and then for \<open>B\<close> the connection is
  listed in both rooms.
\<close>

theorem C3_counterexample:
  "socket_ids (fst (run initial alice [JoinRoom ''A'' False, JoinRoom ''B'' False])) ''A'' = [''s1'']
   \<and> socket_ids (fst (run initial alice [JoinRoom ''A'' False, JoinRoom ''B'' False])) ''B'' = [''s1'']
   \<and> \<not> single_room (fst (run initial alice [JoinRoom ''A'' False, JoinRoom ''B'' False]))"
proof -
  let ?s = "fst (run initial alice [JoinRoom ''A'' False, JoinRoom ''B'' False])"
  have a: "socket_ids ?s ''A'' = [''s1'']"
    by (simp add: fst_run_Cons run_Nil socket_ids_join)
       (simp add: socket_ids_def members_def initial_def alice_def)
  have b: "socket_ids ?s ''B'' = [''s1'']"
    by (simp add: fst_run_Cons run_Nil socket_ids_join)
       (simp add: socket_ids_def members_def initial_def alice_def)
  have "\<not> single_room ?s"
  proof
    assume "single_room ?s"
    then have "''s1'' \<in> set (socket_ids ?s ''A'') \<and> ''s1'' \<in> set (socket_ids ?s ''B'')
        \<longrightarrow> ''A'' = ''B''"
      unfolding single_room_def by blast
    with a b show False by simp
  qed
  with a b show ?thesis by blast
qed

section \<open>Sending a message\<close>

lemma append_message_Inr:
  assumes "append_message s e d = Inr (s1, m)"
  shows "stored s1 = stored s @ [m] \<and> users s1 = users s \<and> roomUsers s1 = roomUsers s
           \<and> msg_roomId m = sd_roomId d \<and> msg_userId m = sd_userId d
           \<and> msg_username m = sd_username d \<and> msg_text m = sd_text d"
  using assms by (auto simp: append_message_def stored_def Let_def split: if_splits)




text \<open>
  C5. When the append of \<^verbatim>\<open>send_message\<close> fails, the handler returns the state as it was
  and emits nothing. In every case \<^verbatim>\<open>users\<close> and \<^verbatim>\<open>roomUsers\<close> are unchanged, and a
  broadcast is emitted only together with a successful append whose message it carries.
\<close>

theorem C5_failed_append_drops_message:
  "(append_message s e d = Inl err \<longrightarrow> send_message s sock e d = (s, []))
   \<and> users (fst (send_message s sock e d)) = users s
   \<and> roomUsers (fst (send_message s sock e d)) = roomUsers s
   \<and> (snd (send_message s sock e d) \<noteq> [] \<longrightarrow>
        (\<exists>s1 m. append_message s e d = Inr (s1, m)
           \<and> fst (send_message s sock e d) = s1
           \<and> stored s1 = stored s @ [m]
           \<and> snd (send_message s sock e d)
               = [ToRoom (sd_roomId d)
                   (ReceiveMessage (sd_userId d) (sd_username d) (sd_text d)
                      (msg_timestamp m) (msg_id m))]))"
proof (cases "append_message s e d")
  case (Inl a)
  then show ?thesis by (simp add: send_message_def)
next
  case (Inr p)
  obtain s1 m where p: "p = (s1, m)" by (cases p)
  with Inr append_message_Inr [of s e d s1 m] show ?thesis
    by (simp add: send_message_def)
qed

text \<open>
  The theorem at a failing save with MongoDB connected, and at a successful send in the
  initial state.
\<close>

theorem C5_witness:
  "append_message (mongo_with []) failing_env (hi ''A'') = Inl SaveFailed
   \<and> send_message (mongo_with []) alice failing_env (hi ''A'') = (mongo_with [], [])
   \<and> snd (send_message initial alice sample_env (hi ''A'')) \<noteq> []
   \<and> (\<exists>s1 m. append_message initial sample_env (hi ''A'') = Inr (s1, m)
         \<and> fst (send_message initial alice sample_env (hi ''A'')) = s1
         \<and> stored s1 = stored initial @ [m])"
proof -
  have h: "append_message (mongo_with []) failing_env (hi ''A'') = Inl SaveFailed"
    by (simp add: append_message_def mongo_with_def failing_env_def initial_def)
  have g: "snd (send_message initial alice sample_env (hi ''A'')) \<noteq> []"
    by (simp add: send_message_def append_message_def initial_def Let_def)
  from C5_failed_append_drops_message [of "mongo_with []" failing_env "hi ''A''" SaveFailed alice] h
  have a: "send_message (mongo_with []) alice failing_env (hi ''A'') = (mongo_with [], [])"
    by blast
  from C5_failed_append_drops_message [of initial sample_env "hi ''A''" SaveFailed alice] g
  have "\<exists>s1 m. append_message initial sample_env (hi ''A'') = Inr (s1, m)
         \<and> fst (send_message initial alice sample_env (hi ''A'')) = s1
         \<and> stored s1 = stored initial @ [m]"
    by blast
  with h a g show ?thesis by blast
qed

section \<open>Leaving a room\<close>

lemma leave_room_absent:
  assumes "sock_id sock \<notin> set (socket_ids s (ld_roomId d))"
  shows "fst (leave_room s sock d) = s"
proof (cases "users s (sock_id sock)")
  case None
  then show ?thesis by (simp add: leave_room_def)
next
  case (Some user)
  show ?thesis
  proof (cases "roomUsers s (ld_roomId d)")
    case None
    with Some show ?thesis by (simp add: leave_room_def Let_def)
  next
    case (Some room)
    with assms have "remove_socket (sock_id sock) room = room"
      by (intro remove_socket_absent) (simp add: socket_ids_def members_def)
    with Some \<open>users s (sock_id sock) = Some user\<close> show ?thesis
      by (simp add: leave_room_def Let_def map_upd_triv)
  qed
qed

text \<open>
  C6 (as amended). A \<^verbatim>\<open>leave_room\<close> from a connection that is not listed in the room it
  names leaves the whole state, every membership list included, as it was; and when the
  connection has no entry in \<^verbatim>\<open>users\<close> nothing is emitted either.
\<close>

theorem C6_leave_room_of_non_member:
  assumes "sock_id sock \<notin> set (socket_ids s (ld_roomId d))"
  shows "fst (leave_room s sock d) = s
         \<and> (users s (sock_id sock) = None \<longrightarrow> snd (leave_room s sock d) = [])"
  using assms by (simp add: leave_room_absent) (simp add: leave_room_def Let_def)

text \<open>The theorem for a connection that has joined no room.\<close>

theorem C6_witness:
  "sock_id alice \<notin> set (socket_ids initial (ld_roomId (leaving ''B'' ''u1'' ''alice'')))
   \<and> users initial (sock_id alice) = None
   \<and> leave_room initial alice (leaving ''B'' ''u1'' ''alice'') = (initial, [])"
proof -
  have h: "sock_id alice \<notin> set (socket_ids initial (ld_roomId (leaving ''B'' ''u1'' ''alice'')))"
    by (simp add: socket_ids_def members_def initial_def)
  have u: "users initial (sock_id alice) = None"
    by (simp add: initial_def)
  from C6_leave_room_of_non_member [OF h] u
  have "fst (leave_room initial alice (leaving ''B'' ''u1'' ''alice'')) = initial
      \<and> snd (leave_room initial alice (leaving ''B'' ''u1'' ''alice'')) = []"
    by blast
  then have "leave_room initial alice (leaving ''B'' ''u1'' ''alice'') = (initial, [])"
    by (simp add: prod_eq_iff)
  with h u show ?thesis by blast
qed

text \<open>
  C6 as stated fails: the connection that has joined \<open>A\<close> is not listed in \<open>B\<close>, and its
  \<^verbatim>\<open>leave_room\<close> for \<open>B\<close> emits \<^verbatim>\<open>user_left\<close> to \<open>B\<close>.
\<close>

theorem C6_counterexample:
  "sock_id alice \<notin> set (socket_ids in_room_A ''B'')
   \<and> snd (leave_room in_room_A alice (leaving ''B'' ''u1'' ''alice''))
       = [ToRoom ''B'' (UserLeft ''alice'' ''u1'' [])]"
  by (simp add: in_room_A_def join_room_def join_room_enter_def join_room_emits_def leave_room_def leaving_def alice_def initial_def
      socket_ids_def members_def Let_def)

section \<open>Whose name a broadcast carries\<close>

lemma leave_room_emits:
  "snd (leave_room s sock ld) =
     (case users s (sock_id sock) of
        None \<Rightarrow> []
      | Some user \<Rightarrow>
          [ToRoom (ld_roomId ld) (UserLeft (ld_username ld) (ld_userId ld)
             (remove_socket (sock_id sock) (members (roomUsers s) (ld_roomId ld))))])"
  by (simp add: leave_room_def Let_def members_def remove_socket_Nil split: option.splits)

text \<open>
  C7. \<^verbatim>\<open>send_message\<close> and \<^verbatim>\<open>leave_room\<close> give the same state and the same emitted events
  whatever identity the socket carries. When the append does not fail, the state
  \<^verbatim>\<open>send_message\<close> leaves has one more message in the store, with the user id, username,
  room and text of the payload, and the \<^verbatim>\<open>receive_message\<close> emitted carries the same;
  when it fails nothing is stored or emitted. The \<^verbatim>\<open>user_left\<close> of \<^verbatim>\<open>leave_room\<close> carries
  the user id and username of its payload.
\<close>

theorem C7_identity_comes_from_payload:
  "send_message s (sock\<lparr>sock_userId := uid, sock_username := name\<rparr>) e d
     = send_message s sock e d
   \<and> leave_room s (sock\<lparr>sock_userId := uid, sock_username := name\<rparr>) ld
     = leave_room s sock ld
   \<and> (\<forall>s1 m. append_message s e d = Inr (s1, m) \<longrightarrow>
         fst (send_message s sock e d) = s1 \<and> stored s1 = stored s @ [m]
         \<and> msg_userId m = sd_userId d \<and> msg_username m = sd_username d)
   \<and> (\<forall>ev \<in> set (snd (send_message s sock e d)).
         \<exists>t i. ev = ToRoom (sd_roomId d)
                  (ReceiveMessage (sd_userId d) (sd_username d) (sd_text d) t i))
   \<and> (\<forall>ev \<in> set (snd (leave_room s sock ld)).
         \<exists>us. ev = ToRoom (ld_roomId ld) (UserLeft (ld_username ld) (ld_userId ld) us))
   \<and> (\<not> (mongoConnected s \<and> env_saveFails e) \<longrightarrow>
         (\<exists>m. stored (fst (send_message s sock e d)) = stored s @ [m]
            \<and> msg_userId m = sd_userId d \<and> msg_username m = sd_username d
            \<and> msg_roomId m = sd_roomId d \<and> msg_text m = sd_text d
            \<and> snd (send_message s sock e d)
                = [ToRoom (sd_roomId d)
                    (ReceiveMessage (sd_userId d) (sd_username d) (sd_text d)
                       (msg_timestamp m) (msg_id m))]))
   \<and> (mongoConnected s \<and> env_saveFails e \<longrightarrow> send_message s sock e d = (s, []))
   \<and> (users s (sock_id sock) \<noteq> None \<longrightarrow>
         snd (leave_room s sock ld)
           = [ToRoom (ld_roomId ld) (UserLeft (ld_username ld) (ld_userId ld)
                (remove_socket (sock_id sock) (members (roomUsers s) (ld_roomId ld))))])"
proof -
  have a: "send_message s (sock\<lparr>sock_userId := uid, sock_username := name\<rparr>) e d
     = send_message s sock e d"
    by (simp add: send_message_def)
  have b: "leave_room s (sock\<lparr>sock_userId := uid, sock_username := name\<rparr>) ld
     = leave_room s sock ld"
    by (simp add: leave_room_def Let_def split: option.splits)
  have c: "\<forall>s1 m. append_message s e d = Inr (s1, m) \<longrightarrow>
         fst (send_message s sock e d) = s1 \<and> stored s1 = stored s @ [m]
         \<and> msg_userId m = sd_userId d \<and> msg_username m = sd_username d"
  proof (intro allI impI)
    fix s1 m
    assume ap: "append_message s e d = Inr (s1, m)"
    from append_message_Inr [OF ap] ap
    show "fst (send_message s sock e d) = s1 \<and> stored s1 = stored s @ [m]
         \<and> msg_userId m = sd_userId d \<and> msg_username m = sd_username d"
      by (simp add: send_message_def)
  qed
  have d: "\<forall>ev \<in> set (snd (send_message s sock e d)).
         \<exists>t i. ev = ToRoom (sd_roomId d)
                  (ReceiveMessage (sd_userId d) (sd_username d) (sd_text d) t i)"
    by (auto simp: send_message_def split: sum.splits)
  have e: "\<forall>ev \<in> set (snd (leave_room s sock ld)).
         \<exists>us. ev = ToRoom (ld_roomId ld) (UserLeft (ld_username ld) (ld_userId ld) us)"
    by (auto simp: leave_room_def Let_def split: option.splits)
  have f: "\<not> (mongoConnected s \<and> env_saveFails e) \<longrightarrow>
         (\<exists>m. stored (fst (send_message s sock e d)) = stored s @ [m]
            \<and> msg_userId m = sd_userId d \<and> msg_username m = sd_username d
            \<and> msg_roomId m = sd_roomId d \<and> msg_text m = sd_text d
            \<and> snd (send_message s sock e d)
                = [ToRoom (sd_roomId d)
                    (ReceiveMessage (sd_userId d) (sd_username d) (sd_text d)
                       (msg_timestamp m) (msg_id m))])"
    by (auto simp: send_message_def append_message_def stored_def Let_def)
  have g: "mongoConnected s \<and> env_saveFails e \<longrightarrow> send_message s sock e d = (s, [])"
    by (simp add: send_message_def append_message_def Let_def)
  have h: "users s (sock_id sock) \<noteq> None \<longrightarrow>
         snd (leave_room s sock ld)
           = [ToRoom (ld_roomId ld) (UserLeft (ld_username ld) (ld_userId ld)
                (remove_socket (sock_id sock) (members (roomUsers s) (ld_roomId ld))))]"
    by (auto simp: leave_room_emits)
  show ?thesis
    by (intro conjI) (rule a b c d e f g h)+
qed

text \<open>
  The theorem for the connection in room \<open>A\<close>, once with its own identity and once with
  another one: the payload names \<open>alice\<close>, and so do the stored message and the events.
\<close>

theorem C7_witness:
  "send_message in_room_A mallory sample_env (hi ''A'')
     = send_message in_room_A alice sample_env (hi ''A'')
   \<and> leave_room in_room_A mallory (leaving ''A'' ''u1'' ''alice'')
     = leave_room in_room_A alice (leaving ''A'' ''u1'' ''alice'')
   \<and> \<not> (mongoConnected in_room_A \<and> env_saveFails sample_env)
   \<and> stored in_room_A = []
   \<and> stored (fst (send_message in_room_A mallory sample_env (hi ''A'')))
     = [\<lparr>msg_id = ''msg_abc'', msg_roomId = ''A'', msg_username = ''alice'',
         msg_userId = ''u1'', msg_text = ''hi'', msg_timestamp = 1000\<rparr>]
   \<and> snd (send_message in_room_A mallory sample_env (hi ''A''))
     = [ToRoom ''A'' (ReceiveMessage ''u1'' ''alice'' ''hi'' 1000 ''msg_abc'')]
   \<and> users in_room_A (sock_id alice) \<noteq> None
   \<and> snd (leave_room in_room_A mallory (leaving ''A'' ''u1'' ''alice''))
     = [ToRoom ''A'' (UserLeft ''alice'' ''u1'' [])]"
proof -
  note inst = C7_identity_comes_from_payload [where s = in_room_A and sock = alice
      and uid = "''u9''" and name = "''mallory''" and e = sample_env and d = "hi ''A''"
      and ld = "leaving ''A'' ''u1'' ''alice''"]
  note same_send = inst [THEN conjunct1]
  note same_leave = inst [THEN conjunct2, THEN conjunct1]
  note rest = inst [THEN conjunct2, THEN conjunct2, THEN conjunct2, THEN conjunct2,
      THEN conjunct2]
  note persisted = rest [THEN conjunct1]
  note left = rest [THEN conjunct2, THEN conjunct2]
  have mal: "mallory = alice\<lparr>sock_userId := ''u9'', sock_username := ''mallory''\<rparr>"
    by (simp add: mallory_def)
  have a: "send_message in_room_A mallory sample_env (hi ''A'')
     = send_message in_room_A alice sample_env (hi ''A'')"
    unfolding mal by (rule same_send)
  have b: "leave_room in_room_A mallory (leaving ''A'' ''u1'' ''alice'')
     = leave_room in_room_A alice (leaving ''A'' ''u1'' ''alice'')"
    unfolding mal by (rule same_leave)
  have ok: "\<not> (mongoConnected in_room_A \<and> env_saveFails sample_env)"
    by (simp add: sample_env_def)
  have st: "stored in_room_A = []"
    by (simp add: stored_def in_room_A_def join_room_def join_room_enter_def initial_def Let_def)
  from persisted [rule_format, OF ok] obtain m where
    m1: "stored (fst (send_message in_room_A alice sample_env (hi ''A'')))
        = stored in_room_A @ [m]"
    and m2: "msg_userId m = sd_userId (hi ''A'')"
    and m3: "msg_username m = sd_username (hi ''A'')"
    and m4: "msg_roomId m = sd_roomId (hi ''A'')"
    and m5: "msg_text m = sd_text (hi ''A'')"
    and m6: "snd (send_message in_room_A alice sample_env (hi ''A''))
        = [ToRoom (sd_roomId (hi ''A''))
            (ReceiveMessage (sd_userId (hi ''A'')) (sd_username (hi ''A'')) (sd_text (hi ''A''))
               (msg_timestamp m) (msg_id m))]"
    by (elim exE conjE)
  have c: "snd (send_message in_room_A alice sample_env (hi ''A''))
     = [ToRoom ''A'' (ReceiveMessage ''u1'' ''alice'' ''hi'' 1000 ''msg_abc'')]"
    by (simp add: send_message_def append_message_def in_room_A_def join_room_def
        join_room_enter_def initial_def sample_env_def hi_def Let_def)
  from c m6 have ti: "msg_timestamp m = 1000 \<and> msg_id m = ''msg_abc''"
    by simp
  with m2 m3 m4 m5 have "m = \<lparr>msg_id = ''msg_abc'', msg_roomId = ''A'', msg_username = ''alice'',
         msg_userId = ''u1'', msg_text = ''hi'', msg_timestamp = 1000\<rparr>"
    by (cases m) (simp add: hi_def)
  with m1 st have s: "stored (fst (send_message in_room_A alice sample_env (hi ''A'')))
     = [\<lparr>msg_id = ''msg_abc'', msg_roomId = ''A'', msg_username = ''alice'',
         msg_userId = ''u1'', msg_text = ''hi'', msg_timestamp = 1000\<rparr>]"
    by simp
  have u: "users in_room_A (sock_id alice) \<noteq> None"
    by (simp add: in_room_A_def join_room_def join_room_enter_def Let_def)
  have rm: "remove_socket (sock_id alice) (members (roomUsers in_room_A) ''A'') = []"
    by (simp add: in_room_A_def members_join_room remove_socket_Cons alice_def)
       (simp add: members_def initial_def remove_socket_Cons)
  from left [rule_format, OF u] rm
  have d: "snd (leave_room in_room_A alice (leaving ''A'' ''u1'' ''alice''))
     = [ToRoom ''A'' (UserLeft ''alice'' ''u1'' [])]"
    by (simp add: leaving_def)
  from a s have s': "stored (fst (send_message in_room_A mallory sample_env (hi ''A'')))
     = [\<lparr>msg_id = ''msg_abc'', msg_roomId = ''A'', msg_username = ''alice'',
         msg_userId = ''u1'', msg_text = ''hi'', msg_timestamp = 1000\<rparr>]"
    by simp
  from a c have c': "snd (send_message in_room_A mallory sample_env (hi ''A''))
     = [ToRoom ''A'' (ReceiveMessage ''u1'' ''alice'' ''hi'' 1000 ''msg_abc'')]"
    by simp
  from b d have d': "snd (leave_room in_room_A mallory (leaving ''A'' ''u1'' ''alice''))
     = [ToRoom ''A'' (UserLeft ''alice'' ''u1'' [])]"
    by simp
  show ?thesis
    by (intro conjI) (rule a b ok st s' c' u d')+
qed

section \<open>Disconnecting\<close>

lemma users_disconnect: "users (fst (disconnect s sock)) (sock_id sock) = None"
  by (simp add: disconnect_def Let_def split: option.splits)

lemma disconnect_unknown:
  assumes "users s (sock_id sock) = None"
  shows "disconnect s sock = (s, [])"
proof -
  from assms have "(users s)(sock_id sock := None) = users s"
    by (simp add: fun_upd_idem)
  with assms show ?thesis by (simp add: disconnect_def)
qed

text \<open>
  C8. Running the \<^verbatim>\<open>disconnect\<close> handler a second time for the same socket changes
  nothing and emits nothing: the state is the one the first run left. For a socket with no
  entry in \<^verbatim>\<open>users\<close> the handler returns the state as it was and emits nothing.
\<close>

theorem C8_disconnect_idempotent:
  "disconnect (fst (disconnect s sock)) sock = (fst (disconnect s sock), [])
   \<and> (users s (sock_id sock) = None \<longrightarrow> disconnect s sock = (s, []))"
  by (simp add: disconnect_unknown users_disconnect)

text \<open>The theorem for a socket that never joined, and for the connection in room \<open>A\<close>.\<close>

theorem C8_witness:
  "users initial (sock_id alice) = None
   \<and> disconnect initial alice = (initial, [])
   \<and> disconnect (fst (disconnect in_room_A alice)) alice = (fst (disconnect in_room_A alice), [])
   \<and> socket_ids (fst (disconnect in_room_A alice)) ''A'' = []"
proof -
  have u: "users initial (sock_id alice) = None"
    by (simp add: initial_def)
  have e: "socket_ids (fst (disconnect in_room_A alice)) ''A'' = []"
    by (simp add: disconnect_def in_room_A_def join_room_def join_room_enter_def join_room_emits_def initial_def alice_def
        socket_ids_def members_def remove_socket_Cons Let_def)
  from C8_disconnect_idempotent [of initial alice] C8_disconnect_idempotent [of in_room_A alice] u e
  show ?thesis by blast
qed

section \<open>Rejected connections\<close>

text \<open>
  C9. When the token is missing or empty, or \<^verbatim>\<open>jwt.verify\<close> throws on it (bad signature,
  expired), the middleware answers with an error, and the connection attempt returns the
  server state as it was, with no event of the connection handled and nothing emitted.
\<close>

theorem C9_rejected_connection_changes_nothing:
  assumes "token = None \<or> token = Some [] \<or> (\<exists>t err. token = Some t \<and> jwt_verify t = Inl err)"
  shows "\<exists>err. io_use jwt_verify sid token = Inl err
           \<and> connection jwt_verify s sid token evs = (Inl err, s, [])"
  using assms
  by (auto simp: connection_def io_use_def verifyToken_def split: option.splits sum.splits)

text \<open>The theorem for a missing token and for an expired one, each followed by a join.\<close>

theorem C9_witness:
  "connection sample_verify initial ''s1'' None [JoinRoom ''A'' False]
     = (Inl NoTokenProvided, initial, [])
   \<and> sample_verify ''old'' = Inl TokenExpiredError
   \<and> connection sample_verify initial ''s1'' (Some ''old'') [JoinRoom ''A'' False]
     = (Inl InvalidOrExpiredToken, initial, [])
   \<and> fst (connection sample_verify initial ''s1'' (Some ''good'') [JoinRoom ''A'' False])
     = Inr alice"
proof -
  have v: "sample_verify ''old'' = Inl TokenExpiredError"
    by (simp add: sample_verify_def)
  have n: "io_use sample_verify ''s1'' None = Inl NoTokenProvided"
    by (simp add: io_use_def)
  have o: "io_use sample_verify ''s1'' (Some ''old'') = Inl InvalidOrExpiredToken"
    by (simp add: io_use_def verifyToken_def sample_verify_def)
  have g: "fst (connection sample_verify initial ''s1'' (Some ''good'') [JoinRoom ''A'' False])
     = Inr alice"
    by (simp add: connection_def io_use_def verifyToken_def sample_verify_def alice_def)
  from C9_rejected_connection_changes_nothing
      [of None sample_verify "''s1''" initial "[JoinRoom ''A'' False]"] n
  have a: "connection sample_verify initial ''s1'' None [JoinRoom ''A'' False]
     = (Inl NoTokenProvided, initial, [])"
    by auto
  from C9_rejected_connection_changes_nothing
      [of "Some ''old''" sample_verify "''s1''" initial "[JoinRoom ''A'' False]"] v o
  have b: "connection sample_verify initial ''s1'' (Some ''old'') [JoinRoom ''A'' False]
     = (Inl InvalidOrExpiredToken, initial, [])"
    by auto
  from a v b g show ?thesis by blast
qed

section \<open>Disconnect and explicit leave\<close>

text \<open>
  C10 (as amended). For a connection that is in the room its entry of \<^verbatim>\<open>users\<close> records,
  the \<^verbatim>\<open>disconnect\<close> handler emits the \<^verbatim>\<open>user_left\<close> that a \<^verbatim>\<open>leave_room\<close> for that room
  emits from the same state, and leaves the same membership lists, provided the
  \<^verbatim>\<open>leave_room\<close> payload carries the user id and username of that entry. The event goes to
  that room and lists its members without the first entry of the socket.
\<close>

theorem C10_disconnect_like_honest_leave:
  assumes "users s (sock_id sock) = Some user"
    and "sock_id sock \<in> set (socket_ids s (u_roomId user))"
    and "ld_roomId d = u_roomId user"
    and "ld_userId d = u_userId user"
    and "ld_username d = u_username user"
  shows "snd (disconnect s sock) = snd (leave_room s sock d)
         \<and> roomUsers (fst (disconnect s sock)) = roomUsers (fst (leave_room s sock d))
         \<and> snd (disconnect s sock)
             = [ToRoom (u_roomId user) (UserLeft (u_username user) (u_userId user)
                  (remove_socket (sock_id sock) (members (roomUsers s) (u_roomId user))))]"
  using assms(1,3,4,5)
  by (simp add: disconnect_def leave_room_def Let_def members_def remove_socket_Nil
      split: option.splits)

text \<open>
  The theorem for \<open>alice\<close> in room \<open>A\<close> together with \<open>bob\<close>, and a payload with her own
  identity: both handlers tell room \<open>A\<close> that \<open>alice\<close> left and that \<open>bob\<close> remains.
\<close>

theorem C10_witness:
  "users (fst (join_room in_room_A bob ''A'' False)) (sock_id alice)
     = Some \<lparr>u_userId = ''u1'', u_username = ''alice'', u_roomId = ''A''\<rparr>
   \<and> sock_id alice \<in> set (socket_ids (fst (join_room in_room_A bob ''A'' False)) ''A'')
   \<and> snd (disconnect (fst (join_room in_room_A bob ''A'' False)) alice)
     = snd (leave_room (fst (join_room in_room_A bob ''A'' False)) alice
         (leaving ''A'' ''u1'' ''alice''))
   \<and> snd (disconnect (fst (join_room in_room_A bob ''A'' False)) alice)
     = [ToRoom ''A'' (UserLeft ''alice'' ''u1''
         [\<lparr>r_userId = ''u2'', r_username = ''bob'', r_socketId = ''s2''\<rparr>])]"
proof -
  let ?s = "fst (join_room in_room_A bob ''A'' False)"
  let ?user = "\<lparr>u_userId = ''u1'', u_username = ''alice'', u_roomId = ''A''\<rparr>"
  have u: "users ?s (sock_id alice) = Some ?user"
    by (simp add: in_room_A_def join_room_def join_room_enter_def alice_def bob_def initial_def
        Let_def)
  have ms: "members (roomUsers ?s) ''A''
      = [\<lparr>r_userId = ''u1'', r_username = ''alice'', r_socketId = ''s1''\<rparr>,
         \<lparr>r_userId = ''u2'', r_username = ''bob'', r_socketId = ''s2''\<rparr>]"
    by (simp add: in_room_A_def members_join_room alice_def bob_def)
       (simp add: members_def initial_def)
  then have l: "sock_id alice \<in> set (socket_ids ?s (u_roomId ?user))"
    by (simp add: socket_ids_def alice_def)
  have r: "ld_roomId (leaving ''A'' ''u1'' ''alice'') = u_roomId ?user"
    by (simp add: leaving_def)
  have i: "ld_userId (leaving ''A'' ''u1'' ''alice'') = u_userId ?user"
    by (simp add: leaving_def)
  have n: "ld_username (leaving ''A'' ''u1'' ''alice'') = u_username ?user"
    by (simp add: leaving_def)
  have rm: "remove_socket (sock_id alice) (members (roomUsers ?s) (u_roomId ?user))
      = [\<lparr>r_userId = ''u2'', r_username = ''bob'', r_socketId = ''s2''\<rparr>]"
    by (simp add: ms remove_socket_Cons alice_def)
  note inst = C10_disconnect_like_honest_leave [OF u l r i n]
  from inst have a: "snd (disconnect ?s alice)
     = snd (leave_room ?s alice (leaving ''A'' ''u1'' ''alice''))"
    by (rule conjunct1)
  from inst [THEN conjunct2, THEN conjunct2] rm
  have b: "snd (disconnect ?s alice) = [ToRoom ''A'' (UserLeft ''alice'' ''u1''
         [\<lparr>r_userId = ''u2'', r_username = ''bob'', r_socketId = ''s2''\<rparr>])]"
    by simp
  from l have l': "sock_id alice \<in> set (socket_ids ?s ''A'')" by simp
  from u l' a b show ?thesis by blast
qed

lemma disconnect_emits:
  "snd (disconnect s sock) =
     (case users s (sock_id sock) of
        None \<Rightarrow> []
      | Some user \<Rightarrow>
          [ToRoom (u_roomId user) (UserLeft (u_username user) (u_userId user)
             (remove_socket (sock_id sock) (members (roomUsers s) (u_roomId user))))])"
  by (simp add: disconnect_def Let_def members_def remove_socket_Nil split: option.splits)

lemma users_in_rooms_A_B:
  "users in_rooms_A_B (sock_id alice)
     = Some \<lparr>u_userId = ''u1'', u_username = ''alice'', u_roomId = ''B''\<rparr>"
  by (simp add: in_rooms_A_B_def join_room_def join_room_enter_def alice_def bob_def initial_def
      Let_def)

lemma members_in_rooms_A_B:
  "members (roomUsers in_rooms_A_B) ''A''
     = [\<lparr>r_userId = ''u1'', r_username = ''alice'', r_socketId = ''s1''\<rparr>,
        \<lparr>r_userId = ''u2'', r_username = ''bob'', r_socketId = ''s2''\<rparr>]
   \<and> members (roomUsers in_rooms_A_B) ''B''
     = [\<lparr>r_userId = ''u1'', r_username = ''alice'', r_socketId = ''s1''\<rparr>]"
  by (simp add: in_rooms_A_B_def join_room_def join_room_enter_def alice_def bob_def initial_def
      members_def Let_def)

text \<open>
  C10 as stated fails in two ways. \<^verbatim>\<open>leave_room\<close> names the user from its payload: a
  \<^verbatim>\<open>leave_room\<close> of room \<open>A\<close> with another name in the payload emits another event than the
  disconnect. And \<^verbatim>\<open>disconnect\<close> looks only at the room of the entry of \<^verbatim>\<open>users\<close>: when
  \<open>alice\<close> has joined \<open>A\<close> and then \<open>B\<close> she is in room \<open>A\<close>, her disconnect tells room \<open>B\<close>
  only, and a \<^verbatim>\<open>leave_room\<close> of \<open>A\<close> with her own identity tells room \<open>A\<close> that \<open>bob\<close>
  remains.
\<close>

theorem C10_counterexample:
  "sock_id alice \<in> set (socket_ids in_room_A ''A'')
   \<and> snd (disconnect in_room_A alice) = [ToRoom ''A'' (UserLeft ''alice'' ''u1'' [])]
   \<and> snd (leave_room in_room_A alice (leaving ''A'' ''u2'' ''bob''))
       = [ToRoom ''A'' (UserLeft ''bob'' ''u2'' [])]
   \<and> snd (disconnect in_room_A alice)
       \<noteq> snd (leave_room in_room_A alice (leaving ''A'' ''u2'' ''bob''))
   \<and> sock_id alice \<in> set (socket_ids in_rooms_A_B ''A'')
   \<and> snd (disconnect in_rooms_A_B alice) = [ToRoom ''B'' (UserLeft ''alice'' ''u1'' [])]
   \<and> snd (leave_room in_rooms_A_B alice (leaving ''A'' ''u1'' ''alice''))
       = [ToRoom ''A'' (UserLeft ''alice'' ''u1''
           [\<lparr>r_userId = ''u2'', r_username = ''bob'', r_socketId = ''s2''\<rparr>])]
   \<and> snd (disconnect in_rooms_A_B alice)
       \<noteq> snd (leave_room in_rooms_A_B alice (leaving ''A'' ''u1'' ''alice''))"
proof -
  have a: "sock_id alice \<in> set (socket_ids in_room_A ''A'')
   \<and> snd (disconnect in_room_A alice) = [ToRoom ''A'' (UserLeft ''alice'' ''u1'' [])]
   \<and> snd (leave_room in_room_A alice (leaving ''A'' ''u2'' ''bob''))
       = [ToRoom ''A'' (UserLeft ''bob'' ''u2'' [])]"
    by (simp add: disconnect_def leave_room_def in_room_A_def join_room_def join_room_enter_def
        initial_def alice_def leaving_def members_def socket_ids_def remove_socket_Cons Let_def)
  have b: "sock_id alice \<in> set (socket_ids in_rooms_A_B ''A'')"
    by (simp add: socket_ids_def members_in_rooms_A_B alice_def)
  have c: "snd (leave_room in_rooms_A_B alice (leaving ''A'' ''u1'' ''alice''))
       = [ToRoom ''A'' (UserLeft ''alice'' ''u1''
           [\<lparr>r_userId = ''u2'', r_username = ''bob'', r_socketId = ''s2''\<rparr>])]"
    by (simp add: leave_room_emits users_in_rooms_A_B members_in_rooms_A_B leaving_def
        remove_socket_Cons) (simp add: alice_def)
  have d: "snd (disconnect in_rooms_A_B alice) = [ToRoom ''B'' (UserLeft ''alice'' ''u1'' [])]"
    by (simp add: disconnect_emits users_in_rooms_A_B members_in_rooms_A_B remove_socket_Cons)
       (simp add: alice_def)
  from a b c d show ?thesis by simp
qed

end
